theory Spec2Isabelle
  imports Main
begin

section \<open>The request path of the OIDC proxy (pkg/proxy/proxy.go)\<close>

text \<open>
  The development embeds \<^verbatim>\<open>Proxy.RoundTrip\<close>, \<^verbatim>\<open>Proxy.tokenReview\<close>,
  \<^verbatim>\<open>Proxy.hasImpersonation\<close> and \<^verbatim>\<open>Proxy.Error\<close>. The collaborators that live in
  other packages (the bearer-token request authenticator, the TokenReview client and the two
  upstream round trippers) are not part of the file: the authenticator and the reviewer are
  fields of the proxy, given as functions, and every call that leaves the proxy is recorded
  in a list of calls, in the order the code makes them. Log lines are left out.
\<close>

subsection \<open>Strings\<close>

text \<open>
  \<^verbatim>\<open>strings.ToLower\<close> on the bytes of a header field name. A field name that reaches the
  proxy is an HTTP token, hence ASCII; on ASCII, ToLower adds \<^verbatim>\<open>'a' - 'A'\<close> to the bytes
  \<^verbatim>\<open>'A'..'Z'\<close> and keeps every other byte. Bytes from 0x80 on are kept here as they are.
\<close>

definition toLower_byte :: "char \<Rightarrow> char" where
  "toLower_byte c =
     (let n = (of_char c :: nat)
      in if 65 \<le> n \<and> n \<le> 90 then char_of (n + 32) else c)"

definition ToLower :: "string \<Rightarrow> string" where
  "ToLower s = map toLower_byte s"

text \<open>\<^verbatim>\<open>strings.HasPrefix(s, prefix)\<close>:
  \<^verbatim>\<open>len(s) >= len(prefix) && s[:len(prefix)] == prefix\<close>.\<close>

definition HasPrefix :: "string \<Rightarrow> string \<Rightarrow> bool" where
  "HasPrefix s pre = (length s \<ge> length pre \<and> take (length pre) s = pre)"

subsection \<open>Constants\<close>

definition UserHeaderClientIPKey :: string where
  "UserHeaderClientIPKey = ''Remote-Client-IP''"

text \<open>
  The header names of \<^verbatim>\<open>k8s.io/client-go/transport\<close> and the group name of
  \<^verbatim>\<open>k8s.io/apiserver/pkg/authentication/user\<close>, with the values the specification gives
  them (sections 3, 4.4 and 6).
\<close>

definition ImpersonateUserHeader :: string where
  "ImpersonateUserHeader = ''Impersonate-User''"

definition ImpersonateGroupHeader :: string where
  "ImpersonateGroupHeader = ''Impersonate-Group''"

definition ImpersonateUserExtraHeaderPrefix :: string where
  "ImpersonateUserExtraHeaderPrefix = ''Impersonate-Extra-''"

definition AllAuthenticated :: string where
  "AllAuthenticated = ''system:authenticated''"

definition impersonateUserHeader :: string where
  "impersonateUserHeader = ToLower ImpersonateUserHeader"

definition impersonateGroupHeader :: string where
  "impersonateGroupHeader = ToLower ImpersonateGroupHeader"

definition impersonateExtraHeader :: string where
  "impersonateExtraHeader = ToLower ImpersonateUserExtraHeaderPrefix"

definition StatusUnauthorized :: nat where
  "StatusUnauthorized = 401"

definition StatusForbidden :: nat where
  "StatusForbidden = 403"

definition StatusInternalServerError :: nat where
  "StatusInternalServerError = 500"

subsection \<open>Errors\<close>

text \<open>
  The three sentinel errors of the package are compared by identity in \<^verbatim>\<open>Proxy.Error\<close>;
  any other error value (one returned by a transport, say) is \<open>otherError\<close> with its
  message. A nil error is \<open>None\<close> of \<open>error option\<close>.
\<close>

datatype error = errUnauthorized | errImpersonateHeader | errNoName | otherError string

subsection \<open>The error handler\<close>

text \<open>
  \<^verbatim>\<open>http.Error(rw, msg, code)\<close> is recorded by the message and the status code the handler
  hands to it; how the library frames the message on the wire is outside the package.
\<close>

datatype reply = http_Error string nat

definition Error :: "error option \<Rightarrow> reply" where
  "Error err =
     (case err of
        None \<Rightarrow> http_Error '''' StatusInternalServerError
      | Some e \<Rightarrow>
          (case e of
             errUnauthorized \<Rightarrow> http_Error ''Unauthorized'' StatusUnauthorized
           | errImpersonateHeader \<Rightarrow>
               http_Error ''Impersonation requests are disabled when using kube-oidc-proxy''
                 StatusForbidden
           | errNoName \<Rightarrow>
               http_Error ''Username claim not available in OIDC Issuer response''
                 StatusForbidden
           | otherError _ \<Rightarrow> http_Error '''' StatusInternalServerError))"

subsection \<open>Requests and headers\<close>

text \<open>
  \<^verbatim>\<open>http.Header\<close> is a Go map from field names to value lists; it is an association
  list here (one entry per key), so that the range loop of \<^verbatim>\<open>hasImpersonation\<close> has
  keys to run over. \<^verbatim>\<open>Header.Del\<close> is the library's deletion of a key in canonical
  form; it is used to say what an authenticator does to the clone.
\<close>

type_synonym Header = "(string \<times> string list) list"

record Request =
  Method :: string
  URL :: string
  Header :: Header
  Body :: string
  RemoteAddr :: string

definition Del :: "string \<Rightarrow> Header \<Rightarrow> Header" where
  "Del key h = filter (\<lambda>kv. fst kv \<noteq> key) h"

text \<open>
  \<^verbatim>\<open>utilnet.CloneRequest\<close> copies the request struct and its header map, so a write to
  the clone's header leaves the original's header alone. With requests as values the clone
  is the same value, and what the authenticator does to it is returned by the
  authenticator; the original \<open>req\<close> stays as it was.
\<close>

definition CloneRequest :: "Request \<Rightarrow> Request" where
  "CloneRequest req = req"

subsection \<open>The authenticated user, the options, the proxy\<close>

text \<open>The methods of \<^verbatim>\<open>user.Info\<close> the proxy calls; a nil extra map is \<open>None\<close>.\<close>

record Info =
  GetName :: string
  GetGroups :: "string list"
  GetExtra :: "(string \<rightharpoonup> string list) option"

text \<open>
  What \<^verbatim>\<open>AuthenticateRequest(reqCpy)\<close> gives back: the response (\<open>None\<close> when the
  response or its user is nil), \<open>ok\<close>, the error, and the clone as the call leaves it.
\<close>

record auth_result =
  auth_info :: "Info option"
  auth_ok :: bool
  auth_err :: "error option"
  auth_req :: Request

record Options =
  DisableImpersonation :: bool
  TokenReview :: bool
  ExtraUserHeaders :: "(string \<times> string list) list"
  ExtraUserHeadersClientIPEnabled :: bool

text \<open>
  The fields of \<^verbatim>\<open>Proxy\<close> that \<^verbatim>\<open>RoundTrip\<close> reads. \<open>tokenReviewer\<close> stands for
  \<^verbatim>\<open>tokenReviewer.Review\<close>, which returns \<^verbatim>\<open>(ok, err)\<close>.
\<close>

record Proxy =
  oidcRequestAuther :: "Request \<Rightarrow> auth_result"
  tokenReviewer :: "Request \<Rightarrow> bool \<times> error option"
  options :: Options

record ImpersonationConfig =
  UserName :: string
  Groups :: "string list"
  Extra :: "string \<rightharpoonup> string list"

subsection \<open>Calls that leave the proxy, and what RoundTrip returns\<close>

datatype transport = clientTransport | noAuthClientTransport

text \<open>
  \<open>Transport t None r\<close> is \<^verbatim>\<open>t.RoundTrip(r)\<close>; \<open>Transport t (Some conf) r\<close> is
  \<^verbatim>\<open>transport.NewImpersonatingRoundTripper(conf, t).RoundTrip(r)\<close>.
\<close>

datatype call =
    Authenticate Request
  | Review Request
  | Transport transport "ImpersonationConfig option" Request

text \<open>
  \<open>Return_error e\<close> is \<^verbatim>\<open>return nil, e\<close>; \<open>Return_transport\<close> returns what the
  transport call, the last call made, returned; \<open>Nil_dereference\<close> is the panic of reading
  the user of a nil response.
\<close>

datatype result = Return_error error | Return_transport | Nil_dereference

subsection \<open>hasImpersonation\<close>

fun hasImpersonation :: "Header \<Rightarrow> bool" where
  "hasImpersonation [] = False"
| "hasImpersonation ((h, vs) # rest) =
     (if ToLower h = impersonateUserHeader \<or>
         ToLower h = impersonateGroupHeader \<or>
         HasPrefix (ToLower h) impersonateExtraHeader
      then True
      else hasImpersonation rest)"

subsection \<open>tokenReview\<close>

definition tokenReview :: "Proxy \<Rightarrow> Request \<Rightarrow> call list \<times> result" where
  "tokenReview p req =
     (case tokenReviewer p req of
        (ok, err) \<Rightarrow>
          if err = None \<and> ok
          then ([Review req, Transport noAuthClientTransport None req], Return_transport)
          else ([Review req], Return_error errUnauthorized))"

subsection \<open>RoundTrip\<close>

text \<open>The loop that looks for the group of all authenticated users.\<close>

fun found_in :: "string list \<Rightarrow> bool" where
  "found_in [] = False"
| "found_in (elem # rest) = (if elem = AllAuthenticated then True else found_in rest)"

definition ensure_group :: "string list \<Rightarrow> string list" where
  "ensure_group groups =
     (if \<not> found_in groups then groups @ [AllAuthenticated] else groups)"

text \<open>\<^verbatim>\<open>extra[k]\<close>, nil for a key the map does not have, and
  \<^verbatim>\<open>extra[k] = append(extra[k], v)\<close>.\<close>

definition values_of :: "(string \<rightharpoonup> string list) \<Rightarrow> string \<Rightarrow> string list" where
  "values_of extra k = (case extra k of None \<Rightarrow> [] | Some vs \<Rightarrow> vs)"

definition append_extra ::
  "(string \<rightharpoonup> string list) \<Rightarrow> string \<Rightarrow> string \<Rightarrow> (string \<rightharpoonup> string list)" where
  "append_extra extra k v = extra(k \<mapsto> values_of extra k @ [v])"

fun add_values ::
  "(string \<rightharpoonup> string list) \<Rightarrow> string \<Rightarrow> string list \<Rightarrow> (string \<rightharpoonup> string list)" where
  "add_values extra k [] = extra"
| "add_values extra k (v # vs) = add_values (append_extra extra k v) k vs"

fun add_headers ::
  "(string \<rightharpoonup> string list) \<Rightarrow> (string \<times> string list) list \<Rightarrow> (string \<rightharpoonup> string list)" where
  "add_headers extra [] = extra"
| "add_headers extra ((k, vs) # rest) = add_headers (add_values extra k vs) rest"

definition build_extra :: "Options \<Rightarrow> Request \<Rightarrow> Info \<Rightarrow> (string \<rightharpoonup> string list)" where
  "build_extra opts req user =
     (let extra = (case GetExtra user of None \<Rightarrow> Map.empty | Some m \<Rightarrow> m);
          extra = (if ExtraUserHeadersClientIPEnabled opts
                   then append_extra extra UserHeaderClientIPKey (RemoteAddr req)
                   else extra)
      in add_headers extra (ExtraUserHeaders opts))"

definition RoundTrip :: "Proxy \<Rightarrow> Request \<Rightarrow> call list \<times> result" where
  "RoundTrip p req =
     (let a = oidcRequestAuther p (CloneRequest req);
          reqCpy = auth_req a;
          called = [Authenticate (CloneRequest req)]
      in
        if auth_err a \<noteq> None then
          (if TokenReview (options p)
           then (case tokenReview p reqCpy of (cs, r) \<Rightarrow> (called @ cs, r))
           else (called, Return_error errUnauthorized))
        else if \<not> auth_ok a then (called, Return_error errUnauthorized)
        else if DisableImpersonation (options p) then
          (called @ [Transport noAuthClientTransport None req], Return_transport)
        else if hasImpersonation (Header reqCpy) then (called, Return_error errImpersonateHeader)
        else
          (case auth_info a of
             None \<Rightarrow> (called, Nil_dereference)
           | Some user \<Rightarrow>
               if GetName user = '''' then (called, Return_error errNoName)
               else
                 (let conf = \<lparr>UserName = GetName user,
                              Groups = ensure_group (GetGroups user),
                              Extra = build_extra (options p) req user\<rparr>
                  in (called @ [Transport clientTransport (Some conf) reqCpy],
                      Return_transport))))"

subsection \<open>What the proxy relies on in the authenticator, and the claims' words\<close>

text \<open>
  The comment at the head of \<^verbatim>\<open>RoundTrip\<close> says why the request is cloned:
  "successfully authenticating the request deletes those auth headers". As a property of
  one call of the authenticator on the clone: a request it accepts comes back without its
  \<^verbatim>\<open>Authorization\<close> field, any other request comes back as it went in.
\<close>

definition deletes_auth_header :: "Request \<Rightarrow> auth_result \<Rightarrow> bool" where
  "deletes_auth_header reqCpy a =
     (auth_req a =
        (if auth_ok a then reqCpy\<lparr>Header := Del ''Authorization'' (Header reqCpy)\<rparr>
         else reqCpy))"

text \<open>
  A header key that, compared without regard to case, equals \<^verbatim>\<open>Impersonate-User\<close> or
  \<^verbatim>\<open>Impersonate-Group\<close>, or starts with \<^verbatim>\<open>Impersonate-Extra-\<close>.
\<close>

definition impersonation_key :: "string \<Rightarrow> bool" where
  "impersonation_key h =
     (ToLower h = ToLower ''Impersonate-User'' \<or>
      ToLower h = ToLower ''Impersonate-Group'' \<or>
      HasPrefix (ToLower h) (ToLower ''Impersonate-Extra-''))"

subsection \<open>Sample collaborators, users and requests\<close>

text \<open>
  An authenticator that accepts every request as a given user and deletes the
  \<^verbatim>\<open>Authorization\<close> field of the clone, one that fails with an error, one that finds no
  token (not ok, nil error), and a reviewer with a fixed verdict.
\<close>

definition accept_as :: "Info \<Rightarrow> Request \<Rightarrow> auth_result" where
  "accept_as user r =
     \<lparr>auth_info = Some user, auth_ok = True, auth_err = None,
      auth_req = r\<lparr>Header := Del ''Authorization'' (Header r)\<rparr>\<rparr>"

definition reject_token :: "Request \<Rightarrow> auth_result" where
  "reject_token r =
     \<lparr>auth_info = None, auth_ok = False, auth_err = Some (otherError ''invalid bearer token''),
      auth_req = r\<rparr>"

definition no_token :: "Request \<Rightarrow> auth_result" where
  "no_token r = \<lparr>auth_info = None, auth_ok = False, auth_err = None, auth_req = r\<rparr>"

definition review_says :: "bool \<Rightarrow> error option \<Rightarrow> Request \<Rightarrow> bool \<times> error option" where
  "review_says ok err r = (ok, err)"

definition alice :: Info where
  "alice = \<lparr>GetName = ''alice'', GetGroups = [''dev''], GetExtra = None\<rparr>"

definition nameless :: Info where
  "nameless = \<lparr>GetName = '''', GetGroups = [''dev''], GetExtra = None\<rparr>"

definition bob :: Info where
  "bob = \<lparr>GetName = ''bob'', GetGroups = [''system:authenticated'', ''ops''],
           GetExtra = Some [''team'' \<mapsto> [''x'']]\<rparr>"

definition plain_request :: Request where
  "plain_request =
     \<lparr>Method = ''GET'', URL = ''/api/v1/pods'',
      Header = [(''Authorization'', [''Bearer abc'']), (''Accept'', [''application/json''])],
      Body = '''', RemoteAddr = ''10.0.0.7:44312''\<rparr>"

definition stripped_request :: Request where
  "stripped_request =
     \<lparr>Method = ''GET'', URL = ''/api/v1/pods'',
      Header = [(''Accept'', [''application/json''])],
      Body = '''', RemoteAddr = ''10.0.0.7:44312''\<rparr>"

definition forged_request :: Request where
  "forged_request =
     \<lparr>Method = ''GET'', URL = ''/api/v1/secrets'',
      Header = [(''Authorization'', [''Bearer abc'']), (''Impersonate-User'', [''admin''])],
      Body = '''', RemoteAddr = ''10.0.0.7:44312''\<rparr>"

definition options_with :: "bool \<Rightarrow> bool \<Rightarrow> Options" where
  "options_with disable review =
     \<lparr>DisableImpersonation = disable, TokenReview = review, ExtraUserHeaders = [],
      ExtraUserHeadersClientIPEnabled = False\<rparr>"

definition extra_options :: Options where
  "extra_options =
     \<lparr>DisableImpersonation = False, TokenReview = False,
      ExtraUserHeaders = [(''Remote-Client-IP'', [''static'']), (''team'', [''a'', ''b''])],
      ExtraUserHeadersClientIPEnabled = True\<rparr>"

definition proxy_of ::
  "(Request \<Rightarrow> auth_result) \<Rightarrow> (Request \<Rightarrow> bool \<times> error option) \<Rightarrow> Options \<Rightarrow> Proxy" where
  "proxy_of auther reviewer opts =
     \<lparr>oidcRequestAuther = auther, tokenReviewer = reviewer, options = opts\<rparr>"

definition alice_conf :: ImpersonationConfig where
  "alice_conf =
     \<lparr>UserName = ''alice'', Groups = [''dev'', ''system:authenticated''],
      Extra = build_extra (options_with False False) plain_request alice\<rparr>"

definition bob_conf :: ImpersonationConfig where
  "bob_conf =
     \<lparr>UserName = ''bob'', Groups = [''system:authenticated'', ''ops''],
      Extra = build_extra extra_options plain_request bob\<rparr>"

section \<open>Auxiliary facts\<close>

subsection \<open>Headers\<close>

lemma hasImpersonation_iff:
  "hasImpersonation h \<longleftrightarrow> (\<exists>k \<in> fst ` set h. impersonation_key k)"
  by (induction h rule: hasImpersonation.induct)
    (auto simp: impersonation_key_def impersonateUserHeader_def impersonateGroupHeader_def
      impersonateExtraHeader_def ImpersonateUserHeader_def ImpersonateGroupHeader_def
      ImpersonateUserExtraHeaderPrefix_def)

lemma Authorization_not_impersonation: "\<not> impersonation_key ''Authorization''"
  unfolding impersonation_key_def by code_simp

lemma set_Del: "fst ` set (Del key h) = fst ` set h - {key}"
  by (auto simp: Del_def)

lemma Del_absent: "key \<notin> fst ` set (Del key h)"
  by (simp add: set_Del)

lemma hasImpersonation_Del:
  "hasImpersonation (Del ''Authorization'' h) = hasImpersonation h"
  unfolding hasImpersonation_iff set_Del
  using Authorization_not_impersonation by auto

subsection \<open>Groups and the extra map\<close>

lemma found_in_iff: "found_in groups \<longleftrightarrow> AllAuthenticated \<in> set groups"
  by (induction groups) auto

lemma values_of_append_extra:
  "values_of (append_extra extra k v) k' = values_of extra k' @ (if k' = k then [v] else [])"
  by (simp add: append_extra_def values_of_def)

lemma values_of_add_values:
  "values_of (add_values extra k vs) k' = values_of extra k' @ (if k' = k then vs else [])"
  by (induction vs arbitrary: extra) (simp_all add: values_of_append_extra)

lemma values_of_add_headers:
  "values_of (add_headers extra hs) k =
     values_of extra k @ concat (map snd (filter (\<lambda>e. fst e = k) hs))"
  by (induction extra hs rule: add_headers.induct) (simp_all add: values_of_add_values)

lemma concat_distinct_keys:
  "distinct (map fst hs) \<Longrightarrow>
     concat (map snd (filter (\<lambda>e. fst e = k) hs)) = values_of (map_of hs) k"
proof (induction hs)
  case Nil
  then show ?case by (simp add: values_of_def)
next
  case (Cons e hs)
  obtain k' vs where e: "e = (k', vs)" by (cases e)
  show ?case
  proof (cases "k' = k")
    case True
    with Cons.prems e have "filter (\<lambda>e. fst e = k) hs = []"
      by (auto simp: filter_empty_conv)
    with True e show ?thesis by (simp add: values_of_def)
  next
    case False
    with Cons e show ?thesis by (simp add: values_of_def)
  qed
qed

subsection \<open>The branches of RoundTrip\<close>

lemma RoundTrip_impersonating:
  assumes "Transport t (Some conf) out \<in> set (fst (RoundTrip p req))"
  shows "\<exists>user. t = clientTransport \<and>
           out = auth_req (oidcRequestAuther p (CloneRequest req)) \<and>
           auth_err (oidcRequestAuther p (CloneRequest req)) = None \<and>
           auth_ok (oidcRequestAuther p (CloneRequest req)) \<and>
           \<not> DisableImpersonation (options p) \<and>
           \<not> hasImpersonation (Header out) \<and>
           auth_info (oidcRequestAuther p (CloneRequest req)) = Some user \<and>
           GetName user \<noteq> '''' \<and>
           conf = \<lparr>UserName = GetName user, Groups = ensure_group (GetGroups user),
                    Extra = build_extra (options p) req user\<rparr>"
  using assms
  by (auto simp: RoundTrip_def Let_def tokenReview_def
      split: if_splits option.splits prod.splits)

lemma RoundTrip_accepted:
  assumes "auth_err (oidcRequestAuther p (CloneRequest req)) = None"
      and "auth_ok (oidcRequestAuther p (CloneRequest req))"
  shows "RoundTrip p req =
     (let a = oidcRequestAuther p (CloneRequest req) in
      if DisableImpersonation (options p) then
        ([Authenticate (CloneRequest req), Transport noAuthClientTransport None req],
         Return_transport)
      else if hasImpersonation (Header (auth_req a)) then
        ([Authenticate (CloneRequest req)], Return_error errImpersonateHeader)
      else
        (case auth_info a of
           None \<Rightarrow> ([Authenticate (CloneRequest req)], Nil_dereference)
         | Some user \<Rightarrow>
             if GetName user = '''' then
               ([Authenticate (CloneRequest req)], Return_error errNoName)
             else
               ([Authenticate (CloneRequest req),
                 Transport clientTransport
                   (Some \<lparr>UserName = GetName user, Groups = ensure_group (GetGroups user),
                          Extra = build_extra (options p) req user\<rparr>) (auth_req a)],
                Return_transport)))"
  using assms by (simp add: RoundTrip_def Let_def split: option.splits)

lemma RoundTrip_failed:
  assumes "auth_err (oidcRequestAuther p (CloneRequest req)) \<noteq> None"
  shows "RoundTrip p req =
     (if TokenReview (options p) then
        (case tokenReviewer p (auth_req (oidcRequestAuther p (CloneRequest req))) of
           (ok, err) \<Rightarrow>
             if err = None \<and> ok then
               ([Authenticate (CloneRequest req),
                 Review (auth_req (oidcRequestAuther p (CloneRequest req))),
                 Transport noAuthClientTransport None
                   (auth_req (oidcRequestAuther p (CloneRequest req)))],
                Return_transport)
             else
               ([Authenticate (CloneRequest req),
                 Review (auth_req (oidcRequestAuther p (CloneRequest req)))],
                Return_error errUnauthorized))
      else ([Authenticate (CloneRequest req)], Return_error errUnauthorized))"
  using assms by (auto simp: RoundTrip_def Let_def tokenReview_def split: prod.splits)

lemma RoundTrip_not_ok:
  assumes "auth_err (oidcRequestAuther p (CloneRequest req)) = None"
      and "\<not> auth_ok (oidcRequestAuther p (CloneRequest req))"
  shows "RoundTrip p req = ([Authenticate (CloneRequest req)], Return_error errUnauthorized)"
  using assms by (simp add: RoundTrip_def Let_def)

lemma RoundTrip_review:
  assumes "Review r \<in> set (fst (RoundTrip p req))"
  shows "auth_err (oidcRequestAuther p (CloneRequest req)) \<noteq> None \<and> TokenReview (options p) \<and>
         r = auth_req (oidcRequestAuther p (CloneRequest req))"
  using assms
  by (auto simp: RoundTrip_def Let_def tokenReview_def
      split: if_splits option.splits prod.splits)

subsection \<open>The replies to the three sentinel errors\<close>

lemma Error_errUnauthorized: "Error (Some errUnauthorized) = http_Error ''Unauthorized'' 401"
  by (simp add: Error_def StatusUnauthorized_def)

lemma Error_errImpersonateHeader:
  "Error (Some errImpersonateHeader) =
     http_Error ''Impersonation requests are disabled when using kube-oidc-proxy'' 403"
  by (simp add: Error_def StatusForbidden_def)

lemma Error_errNoName:
  "Error (Some errNoName) =
     http_Error ''Username claim not available in OIDC Issuer response'' 403"
  by (simp add: Error_def StatusForbidden_def)

subsection \<open>The sample requests\<close>

lemma forged_has: "hasImpersonation (Header forged_request)"
  unfolding forged_request_def by code_simp

lemma plain_has_not: "\<not> hasImpersonation (Header plain_request)"
  unfolding plain_request_def by code_simp

lemma plain_stripped_has_not: "\<not> hasImpersonation (Del ''Authorization'' (Header plain_request))"
  by (simp add: hasImpersonation_Del plain_has_not)

lemma Del_plain: "plain_request\<lparr>Header := Del ''Authorization'' (Header plain_request)\<rparr> =
    stripped_request"
  by (simp add: plain_request_def stripped_request_def Del_def)

lemma stripped_has_not: "\<not> hasImpersonation (Header stripped_request)"
  unfolding stripped_request_def by code_simp

lemma ensure_group_dev: "ensure_group [''dev''] = [''dev'', ''system:authenticated'']"
  by (simp add: ensure_group_def AllAuthenticated_def)

lemma ensure_group_ops:
  "ensure_group [''system:authenticated'', ''ops''] = [''system:authenticated'', ''ops'']"
  by (simp add: ensure_group_def AllAuthenticated_def)

lemma alice_forwarded:
  "RoundTrip (proxy_of (accept_as alice) (review_says False None) (options_with False False))
      plain_request =
    ([Authenticate plain_request, Transport clientTransport (Some alice_conf) stripped_request],
     Return_transport)"
  by (simp add: RoundTrip_def Let_def proxy_of_def accept_as_def CloneRequest_def
      plain_stripped_has_not stripped_has_not alice_def ensure_group_dev alice_conf_def options_with_def Del_plain)

lemma bob_forwarded:
  "RoundTrip (proxy_of (accept_as bob) (review_says False None) extra_options) plain_request =
    ([Authenticate plain_request, Transport clientTransport (Some bob_conf) stripped_request],
     Return_transport)"
  by (simp add: RoundTrip_def Let_def proxy_of_def accept_as_def CloneRequest_def
      plain_stripped_has_not stripped_has_not bob_def ensure_group_ops bob_conf_def extra_options_def Del_plain)

section \<open>Properties of the error handler\<close>

text \<open>
  C3. The error handler answers the Unauthorized error with status 401 and body
  "Unauthorized", the impersonation-header error with status 403 and body "Impersonation
  requests are disabled when using kube-oidc-proxy", the no-username error with status 403
  and body "Username claim not available in OIDC Issuer response", and every other non-nil
  error with status 500 and an empty body.
\<close>

theorem Error_mapping:
  "Error (Some errUnauthorized) = http_Error ''Unauthorized'' 401 \<and>
   Error (Some errImpersonateHeader) =
     http_Error ''Impersonation requests are disabled when using kube-oidc-proxy'' 403 \<and>
   Error (Some errNoName) =
     http_Error ''Username claim not available in OIDC Issuer response'' 403 \<and>
   (\<forall>e. e \<noteq> errUnauthorized \<and> e \<noteq> errImpersonateHeader \<and> e \<noteq> errNoName \<longrightarrow>
        Error (Some e) = http_Error '''' 500)"
proof -
  have other: "Error (Some e) = http_Error '''' 500"
    if "e \<noteq> errUnauthorized" "e \<noteq> errImpersonateHeader" "e \<noteq> errNoName" for e
    using that by (cases e) (simp_all add: Error_def StatusInternalServerError_def)
  show ?thesis
    using other
    by (simp add: Error_def StatusUnauthorized_def StatusForbidden_def)
qed

theorem Error_mapping_witness:
  "otherError ''connection refused'' \<noteq> errUnauthorized \<and>
   otherError ''connection refused'' \<noteq> errImpersonateHeader \<and>
   otherError ''connection refused'' \<noteq> errNoName \<and>
   Error (Some (otherError ''connection refused'')) = http_Error '''' 500"
proof -
  have d: "otherError ''connection refused'' \<noteq> errUnauthorized \<and>
           otherError ''connection refused'' \<noteq> errImpersonateHeader \<and>
           otherError ''connection refused'' \<noteq> errNoName"
    by simp
  from Error_mapping have
    "\<forall>e. e \<noteq> errUnauthorized \<and> e \<noteq> errImpersonateHeader \<and> e \<noteq> errNoName \<longrightarrow>
         Error (Some e) = http_Error '''' 500"
    by blast
  with d show ?thesis by blast
qed

text \<open>
  C10. Called with a nil error, the handler still answers: status 500 with an empty body.
  The handler answers every error value, nil included, with one of the statuses 401, 403
  and 500.
\<close>

theorem Error_nil:
  "Error None = http_Error '''' 500 \<and>
   (\<forall>err. \<exists>msg code. Error err = http_Error msg code \<and> (code = 401 \<or> code = 403 \<or> code = 500))"
proof -
  have "\<exists>msg code. Error err = http_Error msg code \<and> (code = 401 \<or> code = 403 \<or> code = 500)"
    for err
  proof (cases err)
    case None
    then show ?thesis by (simp add: Error_def StatusInternalServerError_def)
  next
    case (Some e)
    then show ?thesis
      by (cases e)
        (simp_all add: Error_def StatusInternalServerError_def StatusUnauthorized_def
          StatusForbidden_def)
  qed
  then show ?thesis
    by (simp add: Error_def StatusInternalServerError_def)
qed

section \<open>Properties of RoundTrip\<close>

text \<open>
  C1. As stated the claim fails: a request with the header \<^verbatim>\<open>Impersonate-User\<close> is passed to
  the upstream through the passthrough transport when impersonation is disabled and the token
  is accepted, and when the token is rejected and the token review accepts it; when the token
  is rejected and there is no token review, the answer is 401, not 403.
\<close>

theorem impersonation_header_not_always_rejected:
  "hasImpersonation (Header forged_request) \<and>
   RoundTrip (proxy_of (accept_as alice) (review_says False None) (options_with True False))
       forged_request =
     ([Authenticate forged_request, Transport noAuthClientTransport None forged_request],
      Return_transport) \<and>
   RoundTrip (proxy_of reject_token (review_says True None) (options_with False True))
       forged_request =
     ([Authenticate forged_request, Review forged_request,
       Transport noAuthClientTransport None forged_request], Return_transport) \<and>
   RoundTrip (proxy_of reject_token (review_says True None) (options_with False False))
       forged_request =
     ([Authenticate forged_request], Return_error errUnauthorized) \<and>
   Error (Some errUnauthorized) = http_Error ''Unauthorized'' 401"
  by (simp add: forged_has RoundTrip_def Let_def tokenReview_def proxy_of_def accept_as_def
      reject_token_def review_says_def options_with_def CloneRequest_def Error_errUnauthorized)

text \<open>
  C1, amended. A request whose header set has a key that without regard to case equals
  \<^verbatim>\<open>Impersonate-User\<close> or \<^verbatim>\<open>Impersonate-Group\<close>, or starts with \<^verbatim>\<open>Impersonate-Extra-\<close>, is
  never sent through the impersonating round tripper, whatever the options and the outcome
  of the authentication; and when the authenticator accepts it and impersonation is not
  disabled, RoundTrip returns the impersonation-header error, which the error handler
  answers with 403, and no call reaches the upstream, whatever the token review option.
\<close>

theorem impersonation_header_rejected:
  assumes "a = oidcRequestAuther p (CloneRequest req)"
      and "deletes_auth_header (CloneRequest req) a"
      and "k \<in> fst ` set (Header req)" and "impersonation_key k"
  shows "(\<forall>t conf out. Transport t (Some conf) out \<notin> set (fst (RoundTrip p req))) \<and>
         (auth_err a = None \<and> auth_ok a \<and> \<not> DisableImpersonation (options p) \<longrightarrow>
            RoundTrip p req =
              ([Authenticate (CloneRequest req)], Return_error errImpersonateHeader) \<and>
            Error (Some errImpersonateHeader) =
              http_Error ''Impersonation requests are disabled when using kube-oidc-proxy'' 403)"
proof -
  have inbound: "hasImpersonation (Header req)"
    using assms(3,4) by (auto simp: hasImpersonation_iff)
  have clone: "hasImpersonation (Header (auth_req a))" if "auth_ok a"
    using that assms(2) inbound
    by (simp add: deletes_auth_header_def CloneRequest_def hasImpersonation_Del)
  have never: "Transport t (Some conf) out \<notin> set (fst (RoundTrip p req))" for t conf out
  proof
    assume "Transport t (Some conf) out \<in> set (fst (RoundTrip p req))"
    from RoundTrip_impersonating[OF this] assms(1)
    have "auth_ok a" and "\<not> hasImpersonation (Header (auth_req a))" by auto
    with clone show False by simp
  qed
  have rejected: "RoundTrip p req =
      ([Authenticate (CloneRequest req)], Return_error errImpersonateHeader)"
    if "auth_err a = None" "auth_ok a" "\<not> DisableImpersonation (options p)"
    using that clone assms(1) by (simp add: RoundTrip_accepted)
  show ?thesis
    using never rejected Error_errImpersonateHeader by blast
qed

theorem impersonation_header_rejected_witness:
  "deletes_auth_header (CloneRequest forged_request)
     (oidcRequestAuther
        (proxy_of (accept_as alice) (review_says True None) (options_with False True))
        (CloneRequest forged_request)) \<and>
   ''Impersonate-User'' \<in> fst ` set (Header forged_request) \<and>
   impersonation_key ''Impersonate-User'' \<and>
   RoundTrip (proxy_of (accept_as alice) (review_says True None) (options_with False True))
       forged_request =
     ([Authenticate forged_request], Return_error errImpersonateHeader) \<and>
   Error (Some errImpersonateHeader) =
     http_Error ''Impersonation requests are disabled when using kube-oidc-proxy'' 403"
proof -
  let ?p = "proxy_of (accept_as alice) (review_says True None) (options_with False True)"
  have c: "deletes_auth_header (CloneRequest forged_request)
             (oidcRequestAuther ?p (CloneRequest forged_request))"
    by (simp add: deletes_auth_header_def proxy_of_def accept_as_def)
  have k: "''Impersonate-User'' \<in> fst ` set (Header forged_request)"
    by (simp add: forged_request_def)
  have i: "impersonation_key ''Impersonate-User''"
    unfolding impersonation_key_def by code_simp
  have s: "auth_err (oidcRequestAuther ?p (CloneRequest forged_request)) = None \<and>
           auth_ok (oidcRequestAuther ?p (CloneRequest forged_request)) \<and>
           \<not> DisableImpersonation (options ?p)"
    by (simp add: proxy_of_def accept_as_def options_with_def)
  from impersonation_header_rejected[OF refl c k i] s c k i show ?thesis
    by (simp add: CloneRequest_def)
qed

text \<open>
  C2. Whenever RoundTrip sends a request through the impersonating round tripper, the
  transport under it is the one that carries the proxy's own credentials, and the request
  sent is the clone as the authenticator left it: for an authenticator that deletes the
  \<^verbatim>\<open>Authorization\<close> field of a request it accepts, the inbound request without that field,
  so the client's bearer token is not in it.
\<close>

theorem impersonated_request_is_stripped_clone:
  assumes "a = oidcRequestAuther p (CloneRequest req)"
      and "deletes_auth_header (CloneRequest req) a"
      and "Transport t (Some conf) out \<in> set (fst (RoundTrip p req))"
  shows "t = clientTransport \<and> out = auth_req a \<and>
         out = req\<lparr>Header := Del ''Authorization'' (Header req)\<rparr> \<and>
         ''Authorization'' \<notin> fst ` set (Header out)"
proof -
  from RoundTrip_impersonating[OF assms(3)] assms(1)
  have t: "t = clientTransport" and out: "out = auth_req a" and ok: "auth_ok a"
    by auto
  from assms(2) ok have "auth_req a = req\<lparr>Header := Del ''Authorization'' (Header req)\<rparr>"
    by (simp add: deletes_auth_header_def CloneRequest_def)
  with t out show ?thesis by (simp add: Del_absent)
qed

theorem impersonated_request_is_stripped_clone_witness:
  "deletes_auth_header (CloneRequest plain_request)
     (oidcRequestAuther
        (proxy_of (accept_as alice) (review_says False None) (options_with False False))
        (CloneRequest plain_request)) \<and>
   Transport clientTransport (Some alice_conf) stripped_request \<in>
     set (fst (RoundTrip
       (proxy_of (accept_as alice) (review_says False None) (options_with False False))
       plain_request)) \<and>
   ''Authorization'' \<in> fst ` set (Header plain_request) \<and>
   ''Authorization'' \<notin> fst ` set (Header stripped_request) \<and>
   stripped_request = plain_request\<lparr>Header := Del ''Authorization'' (Header plain_request)\<rparr>"
proof -
  let ?p = "proxy_of (accept_as alice) (review_says False None) (options_with False False)"
  have c: "deletes_auth_header (CloneRequest plain_request)
             (oidcRequestAuther ?p (CloneRequest plain_request))"
    by (simp add: deletes_auth_header_def proxy_of_def accept_as_def)
  have m: "Transport clientTransport (Some alice_conf) stripped_request \<in>
             set (fst (RoundTrip ?p plain_request))"
    by (simp add: alice_forwarded)
  have h: "''Authorization'' \<in> fst ` set (Header plain_request)"
    by (simp add: plain_request_def)
  from impersonated_request_is_stripped_clone[OF refl c m] c m h show ?thesis by simp
qed

text \<open>
  C5. Every request sent through the impersonating round tripper has
  \<^verbatim>\<open>system:authenticated\<close> among the groups of its impersonation configuration: the group
  list is the authenticated user's when that has the group already, and that list with the
  group appended at the end otherwise.
\<close>

theorem groups_have_AllAuthenticated:
  assumes "Transport t (Some conf) out \<in> set (fst (RoundTrip p req))"
  shows "AllAuthenticated \<in> set (Groups conf) \<and>
         (\<exists>user. auth_info (oidcRequestAuther p (CloneRequest req)) = Some user \<and>
            Groups conf =
              (if AllAuthenticated \<in> set (GetGroups user) then GetGroups user
               else GetGroups user @ [AllAuthenticated]))"
proof -
  from RoundTrip_impersonating[OF assms] obtain user where
    u: "auth_info (oidcRequestAuther p (CloneRequest req)) = Some user" and
    g: "Groups conf = ensure_group (GetGroups user)"
    by auto
  have e: "ensure_group (GetGroups user) =
      (if AllAuthenticated \<in> set (GetGroups user) then GetGroups user
       else GetGroups user @ [AllAuthenticated])"
    by (simp add: ensure_group_def found_in_iff)
  from u g e show ?thesis by auto
qed

theorem groups_have_AllAuthenticated_witness:
  "Transport clientTransport (Some alice_conf) stripped_request \<in>
     set (fst (RoundTrip
       (proxy_of (accept_as alice) (review_says False None) (options_with False False))
       plain_request)) \<and>
   GetGroups alice = [''dev''] \<and>
   Groups alice_conf = [''dev'', ''system:authenticated''] \<and>
   AllAuthenticated \<in> set (Groups alice_conf)"
proof -
  let ?p = "proxy_of (accept_as alice) (review_says False None) (options_with False False)"
  have m: "Transport clientTransport (Some alice_conf) stripped_request \<in>
             set (fst (RoundTrip ?p plain_request))"
    by (simp add: alice_forwarded)
  from groups_have_AllAuthenticated[OF m] m show ?thesis
    by (simp add: alice_def alice_conf_def)
qed

text \<open>
  C4. As stated the claim fails: with impersonation disabled a request accepted for a user
  with the empty name is passed to the upstream, and a request that also carries an
  impersonation header is answered with the impersonation-header error, whose body is
  another.
\<close>

theorem empty_name_not_always_rejected:
  "GetName nameless = '''' \<and>
   RoundTrip (proxy_of (accept_as nameless) (review_says False None) (options_with True False))
       plain_request =
     ([Authenticate plain_request, Transport noAuthClientTransport None plain_request],
      Return_transport) \<and>
   RoundTrip (proxy_of (accept_as nameless) (review_says False None) (options_with False False))
       forged_request =
     ([Authenticate forged_request], Return_error errImpersonateHeader) \<and>
   Error (Some errImpersonateHeader) =
     http_Error ''Impersonation requests are disabled when using kube-oidc-proxy'' 403"
  by (simp add: nameless_def RoundTrip_def Let_def proxy_of_def accept_as_def options_with_def
      CloneRequest_def hasImpersonation_Del forged_has Error_errImpersonateHeader)

text \<open>
  C4, amended. When impersonation is not disabled and the request, as authenticated, carries
  no impersonation header, a request accepted for a user whose name is the empty string is
  answered with the no-username error, which the error handler turns into status 403 with
  body "Username claim not available in OIDC Issuer response", and no call to the upstream
  occurs.
\<close>

theorem empty_name_rejected:
  assumes "a = oidcRequestAuther p (CloneRequest req)"
      and "auth_err a = None" and "auth_ok a"
      and "\<not> DisableImpersonation (options p)"
      and "\<not> hasImpersonation (Header (auth_req a))"
      and "auth_info a = Some user" and "GetName user = ''''"
  shows "RoundTrip p req = ([Authenticate (CloneRequest req)], Return_error errNoName) \<and>
         Error (Some errNoName) =
           http_Error ''Username claim not available in OIDC Issuer response'' 403"
  using assms by (simp add: RoundTrip_accepted Error_errNoName)

theorem empty_name_rejected_witness:
  "auth_err (accept_as nameless (CloneRequest plain_request)) = None \<and>
   auth_ok (accept_as nameless (CloneRequest plain_request)) \<and>
   \<not> hasImpersonation (Header (auth_req (accept_as nameless (CloneRequest plain_request)))) \<and>
   auth_info (accept_as nameless (CloneRequest plain_request)) = Some nameless \<and>
   GetName nameless = '''' \<and>
   RoundTrip (proxy_of (accept_as nameless) (review_says True None) (options_with False True))
       plain_request =
     ([Authenticate plain_request], Return_error errNoName) \<and>
   Error (Some errNoName) =
     http_Error ''Username claim not available in OIDC Issuer response'' 403"
proof -
  let ?p = "proxy_of (accept_as nameless) (review_says True None) (options_with False True)"
  have a: "accept_as nameless (CloneRequest plain_request) =
             oidcRequestAuther ?p (CloneRequest plain_request)"
    by (simp add: proxy_of_def)
  have e: "auth_err (accept_as nameless (CloneRequest plain_request)) = None"
    and k: "auth_ok (accept_as nameless (CloneRequest plain_request))"
    and i: "auth_info (accept_as nameless (CloneRequest plain_request)) = Some nameless"
    by (simp_all add: accept_as_def)
  have d: "\<not> DisableImpersonation (options ?p)"
    by (simp add: proxy_of_def options_with_def)
  have h: "\<not> hasImpersonation
             (Header (auth_req (accept_as nameless (CloneRequest plain_request))))"
    by (simp add: accept_as_def CloneRequest_def plain_stripped_has_not)
  have n: "GetName nameless = ''''"
    by (simp add: nameless_def)
  from empty_name_rejected[OF a e k d h i n] e k h i n show ?thesis
    by (simp add: CloneRequest_def)
qed

text \<open>
  C6. When the authenticator returns an error and the token review is enabled, the proxy asks
  the reviewer about the clone. If the review says authenticated with no error, the clone is
  sent through the passthrough transport, with no impersonation configuration; in every
  other case RoundTrip returns the Unauthorized error, answered with 401. The clone is the
  inbound request itself when the authenticator did not accept it and leaves a request it
  does not accept untouched.
\<close>

theorem token_review_fallback:
  assumes "a = oidcRequestAuther p (CloneRequest req)"
      and "auth_err a \<noteq> None" and "TokenReview (options p)"
  shows "RoundTrip p req =
           (if tokenReviewer p (auth_req a) = (True, None) then
              ([Authenticate (CloneRequest req), Review (auth_req a),
                Transport noAuthClientTransport None (auth_req a)], Return_transport)
            else
              ([Authenticate (CloneRequest req), Review (auth_req a)],
               Return_error errUnauthorized)) \<and>
         Error (Some errUnauthorized) = http_Error ''Unauthorized'' 401 \<and>
         (\<not> auth_ok a \<and> deletes_auth_header (CloneRequest req) a \<longrightarrow> auth_req a = req)"
proof -
  have "RoundTrip p req =
           (if tokenReviewer p (auth_req a) = (True, None) then
              ([Authenticate (CloneRequest req), Review (auth_req a),
                Transport noAuthClientTransport None (auth_req a)], Return_transport)
            else
              ([Authenticate (CloneRequest req), Review (auth_req a)],
               Return_error errUnauthorized))"
    using assms by (cases "tokenReviewer p (auth_req a)") (auto simp: RoundTrip_failed)
  moreover have "auth_req a = req" if "\<not> auth_ok a" "deletes_auth_header (CloneRequest req) a"
    using that by (simp add: deletes_auth_header_def CloneRequest_def)
  ultimately show ?thesis
    using Error_errUnauthorized by blast
qed

theorem token_review_fallback_witness:
  "auth_err (reject_token (CloneRequest plain_request)) \<noteq> None \<and>
   \<not> auth_ok (reject_token (CloneRequest plain_request)) \<and>
   deletes_auth_header (CloneRequest plain_request) (reject_token (CloneRequest plain_request)) \<and>
   RoundTrip (proxy_of reject_token (review_says True None) (options_with False True))
       plain_request =
     ([Authenticate plain_request, Review plain_request,
       Transport noAuthClientTransport None plain_request], Return_transport) \<and>
   RoundTrip (proxy_of reject_token (review_says False None) (options_with False True))
       plain_request =
     ([Authenticate plain_request, Review plain_request], Return_error errUnauthorized) \<and>
   RoundTrip
       (proxy_of reject_token (review_says True (Some (otherError ''timeout'')))
          (options_with False True))
       plain_request =
     ([Authenticate plain_request, Review plain_request], Return_error errUnauthorized)"
proof -
  let ?o = "options_with False True"
  have a: "reject_token (CloneRequest plain_request) =
             oidcRequestAuther (proxy_of reject_token rv ?o) (CloneRequest plain_request)" for rv
    by (simp add: proxy_of_def)
  have e: "auth_err (reject_token (CloneRequest plain_request)) \<noteq> None"
    and k: "\<not> auth_ok (reject_token (CloneRequest plain_request))"
    and c: "deletes_auth_header (CloneRequest plain_request)
              (reject_token (CloneRequest plain_request))"
    by (simp_all add: reject_token_def deletes_auth_header_def)
  have t: "TokenReview (options (proxy_of reject_token rv ?o))" for rv
    by (simp add: proxy_of_def options_with_def)
  have r: "auth_req (reject_token (CloneRequest plain_request)) = plain_request"
    by (simp add: reject_token_def CloneRequest_def)
  from token_review_fallback[OF a e t, of "review_says True None"]
    token_review_fallback[OF a e t, of "review_says False None"]
    token_review_fallback[OF a e t, of "review_says True (Some (otherError ''timeout''))"]
    e k c
  show ?thesis
    by (simp add: r proxy_of_def review_says_def CloneRequest_def)
qed

text \<open>
  C7. When impersonation is disabled and the authenticator accepts the request, the request
  sent to the upstream is the original inbound request, not the clone: its headers, the
  \<^verbatim>\<open>Authorization\<close> field among them, are the inbound ones, it goes through the passthrough
  transport, and no impersonation configuration is attached.
\<close>

theorem disabled_impersonation_forwards_original:
  assumes "a = oidcRequestAuther p (CloneRequest req)"
      and "auth_err a = None" and "auth_ok a"
      and "DisableImpersonation (options p)"
  shows "RoundTrip p req =
           ([Authenticate (CloneRequest req), Transport noAuthClientTransport None req],
            Return_transport)"
  using assms by (simp add: RoundTrip_accepted)

theorem disabled_impersonation_forwards_original_witness:
  "auth_err (accept_as alice (CloneRequest plain_request)) = None \<and>
   auth_ok (accept_as alice (CloneRequest plain_request)) \<and>
   auth_req (accept_as alice (CloneRequest plain_request)) = stripped_request \<and>
   RoundTrip (proxy_of (accept_as alice) (review_says False None) (options_with True False))
       plain_request =
     ([Authenticate plain_request, Transport noAuthClientTransport None plain_request],
      Return_transport) \<and>
   map_of (Header plain_request) ''Authorization'' = Some [''Bearer abc'']"
proof -
  let ?p = "proxy_of (accept_as alice) (review_says False None) (options_with True False)"
  have a: "accept_as alice (CloneRequest plain_request) =
             oidcRequestAuther ?p (CloneRequest plain_request)"
    by (simp add: proxy_of_def)
  have e: "auth_err (accept_as alice (CloneRequest plain_request)) = None"
    and k: "auth_ok (accept_as alice (CloneRequest plain_request))"
    by (simp_all add: accept_as_def)
  have d: "DisableImpersonation (options ?p)"
    by (simp add: proxy_of_def options_with_def)
  have s: "auth_req (accept_as alice (CloneRequest plain_request)) = stripped_request"
    by (simp add: accept_as_def CloneRequest_def Del_plain)
  have h: "map_of (Header plain_request) ''Authorization'' = Some [''Bearer abc'']"
    by (simp add: plain_request_def)
  from disabled_impersonation_forwards_original[OF a e k d] e k s h show ?thesis
    by (simp add: CloneRequest_def)
qed

text \<open>
  C8. For every request sent through the impersonating round tripper, the extra map of the
  impersonation configuration holds, under every key, the values the user's extra map has
  under it, then the remote address of the request when the key is \<^verbatim>\<open>Remote-Client-IP\<close> and
  the client IP option is set, then the values configured for the key in the extra user
  headers, in their configured order; nothing the user's map had is replaced.
\<close>

theorem extra_map_built:
  assumes "Transport t (Some conf) out \<in> set (fst (RoundTrip p req))"
      and "distinct (map fst (ExtraUserHeaders (options p)))"
  shows "\<exists>user. auth_info (oidcRequestAuther p (CloneRequest req)) = Some user \<and>
           (\<forall>k. values_of (Extra conf) k =
              values_of (case GetExtra user of None \<Rightarrow> Map.empty | Some m \<Rightarrow> m) k @
              (if ExtraUserHeadersClientIPEnabled (options p) \<and> k = ''Remote-Client-IP''
               then [RemoteAddr req] else []) @
              values_of (map_of (ExtraUserHeaders (options p))) k)"
proof -
  from RoundTrip_impersonating[OF assms(1)] obtain user where
    u: "auth_info (oidcRequestAuther p (CloneRequest req)) = Some user" and
    x: "Extra conf = build_extra (options p) req user"
    by auto
  have "values_of (build_extra (options p) req user) k =
      values_of (case GetExtra user of None \<Rightarrow> Map.empty | Some m \<Rightarrow> m) k @
      (if ExtraUserHeadersClientIPEnabled (options p) \<and> k = ''Remote-Client-IP''
       then [RemoteAddr req] else []) @
      values_of (map_of (ExtraUserHeaders (options p))) k" for k
    using assms(2)
    by (simp add: build_extra_def Let_def values_of_add_headers values_of_append_extra
        concat_distinct_keys UserHeaderClientIPKey_def)
  with u x show ?thesis by simp
qed

theorem extra_map_built_witness:
  "Transport clientTransport (Some bob_conf) stripped_request \<in>
     set (fst (RoundTrip (proxy_of (accept_as bob) (review_says False None) extra_options)
       plain_request)) \<and>
   distinct (map fst (ExtraUserHeaders extra_options)) \<and>
   values_of (Extra bob_conf) ''team'' = [''x'', ''a'', ''b''] \<and>
   values_of (Extra bob_conf) ''Remote-Client-IP'' = [''10.0.0.7:44312'', ''static''] \<and>
   values_of (Extra bob_conf) ''project'' = []"
proof -
  let ?p = "proxy_of (accept_as bob) (review_says False None) extra_options"
  have m: "Transport clientTransport (Some bob_conf) stripped_request \<in>
             set (fst (RoundTrip ?p plain_request))"
    by (simp add: bob_forwarded)
  have d: "distinct (map fst (ExtraUserHeaders (options ?p)))"
    by (simp add: proxy_of_def extra_options_def)
  have b: "auth_info (oidcRequestAuther ?p (CloneRequest plain_request)) = Some bob"
    by (simp add: proxy_of_def accept_as_def)
  from extra_map_built[OF m d] b have v:
    "values_of (Extra bob_conf) k =
       values_of (case GetExtra bob of None \<Rightarrow> Map.empty | Some m \<Rightarrow> m) k @
       (if ExtraUserHeadersClientIPEnabled (options ?p) \<and> k = ''Remote-Client-IP''
        then [RemoteAddr plain_request] else []) @
       values_of (map_of (ExtraUserHeaders (options ?p))) k" for k
    by auto
  have team: "values_of (Extra bob_conf) ''team'' = [''x'', ''a'', ''b'']"
    by (subst v) (simp add: bob_def values_of_def proxy_of_def extra_options_def)
  have ip: "values_of (Extra bob_conf) ''Remote-Client-IP'' = [''10.0.0.7:44312'', ''static'']"
    by (subst v) (simp add: bob_def values_of_def proxy_of_def extra_options_def plain_request_def)
  have other: "values_of (Extra bob_conf) ''project'' = []"
    by (subst v) (simp add: bob_def values_of_def proxy_of_def extra_options_def)
  from m d team ip other show ?thesis
    by (simp add: proxy_of_def)
qed

text \<open>
  C9. The reviewer is called only when the authenticator returned a non-nil error and the
  token review is enabled. When the authenticator returns not ok with a nil error, RoundTrip
  returns the Unauthorized error, answered with 401, and the only call made is the one to
  the authenticator, also when the token review is enabled.
\<close>

theorem token_review_only_on_error:
  assumes "a = oidcRequestAuther p (CloneRequest req)"
  shows "(\<forall>r. Review r \<in> set (fst (RoundTrip p req)) \<longrightarrow>
            auth_err a \<noteq> None \<and> TokenReview (options p)) \<and>
         (auth_err a = None \<and> \<not> auth_ok a \<longrightarrow>
            RoundTrip p req = ([Authenticate (CloneRequest req)], Return_error errUnauthorized) \<and>
            Error (Some errUnauthorized) = http_Error ''Unauthorized'' 401)"
proof -
  have "auth_err a \<noteq> None \<and> TokenReview (options p)"
    if "Review r \<in> set (fst (RoundTrip p req))" for r
    using RoundTrip_review[OF that] assms by simp
  moreover have
    "RoundTrip p req = ([Authenticate (CloneRequest req)], Return_error errUnauthorized)"
    if "auth_err a = None" "\<not> auth_ok a"
    using that assms by (simp add: RoundTrip_not_ok)
  ultimately show ?thesis
    using Error_errUnauthorized by blast
qed

theorem token_review_only_on_error_witness:
  "auth_err (no_token (CloneRequest plain_request)) = None \<and>
   \<not> auth_ok (no_token (CloneRequest plain_request)) \<and>
   TokenReview (options_with False True) \<and>
   RoundTrip (proxy_of no_token (review_says True None) (options_with False True))
       plain_request =
     ([Authenticate plain_request], Return_error errUnauthorized) \<and>
   Review plain_request \<notin>
     set (fst (RoundTrip (proxy_of no_token (review_says True None) (options_with False True))
       plain_request)) \<and>
   Error (Some errUnauthorized) = http_Error ''Unauthorized'' 401"
proof -
  let ?p = "proxy_of no_token (review_says True None) (options_with False True)"
  have a: "no_token (CloneRequest plain_request) =
             oidcRequestAuther ?p (CloneRequest plain_request)"
    by (simp add: proxy_of_def)
  have e: "auth_err (no_token (CloneRequest plain_request)) = None"
    and k: "\<not> auth_ok (no_token (CloneRequest plain_request))"
    by (simp_all add: no_token_def)
  have t: "TokenReview (options_with False True)"
    by (simp add: options_with_def)
  from token_review_only_on_error[OF a] e k have
    r: "RoundTrip ?p plain_request =
          ([Authenticate (CloneRequest plain_request)], Return_error errUnauthorized)"
    and u: "Error (Some errUnauthorized) = http_Error ''Unauthorized'' 401"
    by blast+
  from r u e k t show ?thesis
    by (simp add: CloneRequest_def)
qed

end
